theory Spec2Isabelle
  imports Complex_Main "HOL-Library.Word" "HOL-Library.Sublist"
begin

section \<open>KlayGE MeshConverter: shallow embedding\<close>

text \<open>
  The definitions below follow \<^verbatim>\<open>KlayGE/Tools/src/Common/MeshConverter.cpp\<close>.
  A C++ \<^verbatim>\<open>float\<close> is modelled as a \<^typ>\<open>real\<close> (comparisons, negation and the
  control flow they decide are kept; rounding of the arithmetic is not modelled),
  \<^verbatim>\<open>size_t\<close> indices into vectors as \<^typ>\<open>nat\<close>, a failed \<^verbatim>\<open>BOOST_ASSERT\<close> and an
  out-of-range vector access as an error value.
\<close>

datatype error = AssertionFailed | OutOfRange

subsection \<open>Vectors, quaternions, matrices and the MathLib boundary\<close>

datatype float3 = float3 (vx: real) (vy: real) (vz: real)

text \<open>\<^verbatim>\<open>Quaternion(x, y, z, w)\<close>: three vector components, then the scalar \<open>w\<close>.\<close>

datatype Quaternion = Quaternion (qx: real) (qy: real) (qz: real) (qw: real)

text \<open>\<^verbatim>\<open>float4x4\<close>, read as \<^verbatim>\<open>mat(row, col)\<close>.\<close>

type_synonym float4x4 = "nat \<Rightarrow> nat \<Rightarrow> real"

definition quat_neg :: "Quaternion \<Rightarrow> Quaternion" where
  "quat_neg q = Quaternion (- qx q) (- qy q) (- qz q) (- qw q)"

definition quat_scale :: "Quaternion \<Rightarrow> real \<Rightarrow> Quaternion" where
  "quat_scale q s = Quaternion (qx q * s) (qy q * s) (qz q * s) (qw q * s)"

definition quat_dot :: "Quaternion \<Rightarrow> Quaternion \<Rightarrow> real" where
  "quat_dot a b = qx a * qx b + qy a * qy b + qz a * qz b + qw a * qw b"



definition lerp :: "real \<Rightarrow> real \<Rightarrow> real \<Rightarrow> real" where
  "lerp lhs rhs s = lhs + (rhs - lhs) * s"

definition lerp3 :: "float3 \<Rightarrow> float3 \<Rightarrow> real \<Rightarrow> float3" where
  "lerp3 lhs rhs s =
     float3 (lerp (vx lhs) (vx rhs) s) (lerp (vy lhs) (vy rhs) s) (lerp (vz lhs) (vz rhs) s)"

text \<open>
  \<^verbatim>\<open>MathLib::SignBit\<close>: \<open>-1\<close> when the sign bit of the float is set, \<open>1\<close> otherwise
  (a \<^typ>\<open>real\<close> has no negative zero).
\<close>

definition SignBit :: "real \<Rightarrow> real" where
  "SignBit v = (if v < 0 then - 1 else 1)"




text \<open>
  The dual-quaternion and matrix routines of KFL's MathLib are not part of the sources
  under verification. The converter's functions take them as a parameter: every theorem
  about the converter holds for whatever these routines compute.
\<close>

record mathlib =
  sclerp :: "Quaternion \<Rightarrow> Quaternion \<Rightarrow> Quaternion \<Rightarrow> Quaternion \<Rightarrow> real
               \<Rightarrow> Quaternion \<times> Quaternion"
  slerp :: "Quaternion \<Rightarrow> Quaternion \<Rightarrow> real \<Rightarrow> Quaternion"
  dq_inverse :: "Quaternion \<Rightarrow> Quaternion \<Rightarrow> Quaternion \<times> Quaternion"
  mul_dual :: "Quaternion \<Rightarrow> Quaternion \<Rightarrow> Quaternion \<Rightarrow> Quaternion \<Rightarrow> Quaternion"
  mul_real :: "Quaternion \<Rightarrow> Quaternion \<Rightarrow> Quaternion"
  quat_trans_to_udq :: "Quaternion \<Rightarrow> float3 \<Rightarrow> Quaternion"
  decompose :: "float4x4 \<Rightarrow> float3 \<times> Quaternion \<times> float3"
  mat_inverse :: "float4x4 \<Rightarrow> float4x4"

subsection \<open>The converter's data\<close>

text \<open>
  \<^verbatim>\<open>KeyFrameSet\<close>: four parallel vectors, one entry per sample.
\<close>

record KeyFrameSet =
  frame_id :: "int list"
  bind_real :: "Quaternion list"
  bind_dual :: "Quaternion list"
  bind_scale :: "real list"

text \<open>
  \<^verbatim>\<open>Joint\<close>. The parent is an \<^verbatim>\<open>int16_t\<close>, \<open>-1\<close> for a root. The bind pose fields have
  the names of the KeyFrameSet vectors, so both are written with their record's name
  (\<open>Joint.bind_real\<close>, \<open>KeyFrameSet.bind_real\<close>).
\<close>

record Joint =
  name :: string
  parent :: int
  bind_real :: Quaternion
  bind_dual :: Quaternion
  bind_scale :: real
  inverse_origin_real :: Quaternion
  inverse_origin_dual :: Quaternion
  inverse_origin_scale :: real

text \<open>
  \<^verbatim>\<open>Mesh\<close> and its \<^verbatim>\<open>MeshLod\<close>s, with the fields the functions below read or write:
  the material id and, per LOD, the joint bindings (one list of
  \<^verbatim>\<open>(joint id, weight)\<close> pairs per vertex).
\<close>

record MeshLod =
  joint_bindings :: "(nat \<times> real) list list"

record Mesh =
  mtl_id :: nat
  lods :: "MeshLod list"

subsection \<open>The importer's scene\<close>

text \<open>
  The parts of the importer's \<^verbatim>\<open>aiScene\<close> that the functions below read. A vertex
  weight is the pair of its \<^verbatim>\<open>mVertexId\<close> and its \<^verbatim>\<open>mWeight\<close>; a node lists the indices
  of its meshes in the scene's mesh array.
\<close>

record aiBone =
  mName :: string
  mOffsetMatrix :: float4x4
  mWeights :: "(nat \<times> real) list"

record aiMesh =
  mNumVertices :: nat
  mBones :: "aiBone list"

datatype aiNode =
  aiNode (mName: string) (mTransformation: float4x4) (mMeshes: "nat list") (mChildren: "aiNode list")

record aiScene =
  mRootNode :: aiNode
  mMeshes :: "aiMesh list"

subsection \<open>GetInterpTime\<close>

text \<open>
  Modelled from the spec: \<^verbatim>\<open>MathLib::clamp\<close> (KFL, not under src/), the usual
  clamp of a value into \<open>[low, high]\<close>.
\<close>

definition clamp :: "'a::linorder \<Rightarrow> 'a \<Rightarrow> 'a \<Rightarrow> 'a" where
  "clamp val low high = max low (min high val)"

text \<open>
  The \<^verbatim>\<open>for (i = itime_upper; i < vec_size; ++ i)\<close> loop of \<^verbatim>\<open>GetInterpTime\<close>, which
  breaks at the first entry whose time is at least the query time.
\<close>

function scan_from :: "(real \<times> 'a) list \<Rightarrow> real \<Rightarrow> nat \<Rightarrow> nat" where
  "scan_from vec time i =
     (if i < length vec
      then (if time \<le> fst (vec ! i) then i else scan_from vec time (Suc i))
      else i)"
  by pat_completeness auto
termination
  by (relation "measure (\<lambda>(vec, time, i). length vec - i)") auto

declare scan_from.simps [simp del]

text \<open>
  \<^verbatim>\<open>GetInterpTime(vec, time, itime_lower, itime_upper)\<close>: \<^verbatim>\<open>itime_lower\<close> is written
  only, \<^verbatim>\<open>itime_upper\<close> is read as the hint and written. The result is the returned
  fraction with the final \<^verbatim>\<open>(itime_lower, itime_upper)\<close>.
\<close>

definition GetInterpTime :: "(real \<times> 'a) list \<Rightarrow> real \<Rightarrow> nat \<Rightarrow> error + (real \<times> nat \<times> nat)" where
  "GetInterpTime vec time itime_upper =
     (if vec = [] then Inl AssertionFailed
      else if length vec = 1 then Inr (0, 0, 0)
      else
        let vec_size = length vec;
            i = scan_from vec time itime_upper;
            (lower, upper) =
              (if i = 0 then (0, 1)
               else if i \<ge> length vec - 1 then (vec_size - 2, vec_size - 1)
               else (i - 1, i));
            diff = fst (vec ! upper) - fst (vec ! lower)
        in Inr (clamp (if diff = 0 then 0 else (time - fst (vec ! lower)) / diff) 0 1,
                lower, upper))"

subsection \<open>KeyFrameSet and CompressKeyFrameSet\<close>

text \<open>
  A \<^verbatim>\<open>KeyFrameSet\<close> is four parallel vectors. Frame ids are C++ \<^verbatim>\<open>int\<close>s, taken as
  unbounded integers (their differences are only fed to the tolerance test).
\<close>

text \<open>\<^verbatim>\<open>float const THRESHOLD = 1e-3f\<close>\<close>

definition THRESHOLD :: real where
  "THRESHOLD = 1 / 1000"

text \<open>\<^verbatim>\<open>v.erase(v.begin() + i)\<close> on a vector.\<close>

definition erase_at :: "'a list \<Rightarrow> nat \<Rightarrow> 'a list" where
  "erase_at xs i = take i xs @ drop (Suc i) xs"

text \<open>The four \<^verbatim>\<open>erase\<close> calls of the loop body, at the same index.\<close>

definition erase_sample :: "KeyFrameSet \<Rightarrow> nat \<Rightarrow> KeyFrameSet" where
  "erase_sample kf i =
     \<lparr>KeyFrameSet.frame_id = erase_at (KeyFrameSet.frame_id kf) i,
      KeyFrameSet.bind_real = erase_at (KeyFrameSet.bind_real kf) i,
      KeyFrameSet.bind_dual = erase_at (KeyFrameSet.bind_dual kf) i,
      KeyFrameSet.bind_scale = erase_at (KeyFrameSet.bind_scale kf) i\<rparr>"

text \<open>
  The body of the loop up to the tolerance test: the middle sample \<open>base + 1\<close> is
  reconstructed from its neighbours \<open>base\<close> and \<open>base + 2\<close> and compared with the
  stored one.
\<close>

definition within_threshold :: "mathlib \<Rightarrow> KeyFrameSet \<Rightarrow> nat \<Rightarrow> bool" where
  "within_threshold ml kf base =
     (let frame0 = KeyFrameSet.frame_id kf ! (base + 0);
          frame1 = KeyFrameSet.frame_id kf ! (base + 1);
          frame2 = KeyFrameSet.frame_id kf ! (base + 2);
          factor = real_of_int (frame1 - frame0) / real_of_int (frame2 - frame0);
          (interpolate_real0, interpolate_dual0) =
            sclerp ml (KeyFrameSet.bind_real kf ! (base + 0)) (KeyFrameSet.bind_dual kf ! (base + 0))
              (KeyFrameSet.bind_real kf ! (base + 2)) (KeyFrameSet.bind_dual kf ! (base + 2)) factor;
          scale = lerp (KeyFrameSet.bind_scale kf ! (base + 0)) (KeyFrameSet.bind_scale kf ! (base + 2)) factor;
          flip = (quat_dot (KeyFrameSet.bind_real kf ! (base + 1)) interpolate_real0 < 0);
          interpolate_real = (if flip then quat_neg interpolate_real0 else interpolate_real0);
          interpolate_dual = (if flip then quat_neg interpolate_dual0 else interpolate_dual0);
          (diff_real0, diff_dual0) =
            dq_inverse ml (KeyFrameSet.bind_real kf ! (base + 1)) (KeyFrameSet.bind_dual kf ! (base + 1));
          diff_dual = mul_dual ml diff_real0 (quat_scale diff_dual0 scale)
                        interpolate_real interpolate_dual;
          diff_real = mul_real ml diff_real0 interpolate_real;
          diff_scale = scale * KeyFrameSet.bind_scale kf ! (base + 1)
      in \<bar>qx diff_real\<bar> < THRESHOLD \<and> \<bar>qy diff_real\<bar> < THRESHOLD
         \<and> \<bar>qz diff_real\<bar> < THRESHOLD \<and> \<bar>qw diff_real - 1\<bar> < THRESHOLD
         \<and> \<bar>qx diff_dual\<bar> < THRESHOLD \<and> \<bar>qy diff_dual\<bar> < THRESHOLD
         \<and> \<bar>qz diff_dual\<bar> < THRESHOLD \<and> \<bar>qw diff_dual\<bar> < THRESHOLD
         \<and> \<bar>diff_scale - 1\<bar> < THRESHOLD)"

text \<open>
  The loop bound \<^verbatim>\<open>static_cast<int>(kf.frame_id.size() - 2)\<close>: the subtraction is done
  in the 64-bit unsigned \<^verbatim>\<open>size_t\<close> (it wraps for sizes 0 and 1) and the result is
  converted to a 32-bit signed \<^verbatim>\<open>int\<close>.
\<close>

definition loop_bound :: "nat \<Rightarrow> int" where
  "loop_bound n = sint (ucast ((word_of_nat n :: 64 word) - 2) :: 32 word)"

text \<open>
  The \<^verbatim>\<open>while (base < static_cast<int>(kf.frame_id.size() - 2))\<close> loop. \<^verbatim>\<open>base\<close> starts
  at 0 and is only incremented, so it is a natural number here.
\<close>

function compress_loop :: "mathlib \<Rightarrow> KeyFrameSet \<Rightarrow> nat \<Rightarrow> KeyFrameSet" where
  "compress_loop ml kf base =
     (if int base < loop_bound (length (KeyFrameSet.frame_id kf))
      then (if within_threshold ml kf base
            then compress_loop ml (erase_sample kf (base + 1)) base
            else compress_loop ml kf (base + 1))
      else kf)"
  by pat_completeness auto
termination
proof (relation "measure (\<lambda>(ml, kf, base). 2 * length (KeyFrameSet.frame_id kf) - base)")
  show "wf (measure (\<lambda>(ml, kf, base). 2 * length (KeyFrameSet.frame_id kf) - base))" by simp
next
  fix ml :: mathlib and kf :: KeyFrameSet and base :: nat
  assume run: "int base < loop_bound (length (KeyFrameSet.frame_id kf))"
  define k where "k = int (length (KeyFrameSet.frame_id kf)) - 2"
  have "loop_bound (length (KeyFrameSet.frame_id kf)) = signed_take_bit 31 k"
  proof -
    have e1: "(word_of_nat (length (KeyFrameSet.frame_id kf)) :: 64 word) - 2 = word_of_int k"
      by (simp add: k_def)
    have e2: "(ucast (word_of_int k :: 64 word) :: 32 word) = word_of_int k"
      by (rule ucast_down_wi) (simp add: is_down)
    have e3: "sint (word_of_int k :: 32 word) = signed_take_bit 31 k"
      by (simp add: sint_sbintrunc')
    show ?thesis
      unfolding loop_bound_def e1 e2 by (rule e3)
  qed
  moreover have "signed_take_bit 31 k \<le> k"
    by (simp add: signed_take_bit_int_less_eq_self_iff k_def)
  ultimately have lt: "base + 2 < length (KeyFrameSet.frame_id kf)" using run by (simp add: k_def)
  show "((ml, erase_sample kf (base + 1), base), (ml, kf, base))
      \<in> measure (\<lambda>(ml, kf, base). 2 * length (KeyFrameSet.frame_id kf) - base)"
    using lt by (simp add: erase_sample_def erase_at_def)
  show "((ml, kf, base + 1), (ml, kf, base))
      \<in> measure (\<lambda>(ml, kf, base). 2 * length (KeyFrameSet.frame_id kf) - base)"
    using lt by simp
qed

declare compress_loop.simps [simp del]

text \<open>\<^verbatim>\<open>CompressKeyFrameSet\<close>: the size assertion, then the loop from \<^verbatim>\<open>base = 0\<close>.\<close>

definition CompressKeyFrameSet :: "mathlib \<Rightarrow> KeyFrameSet \<Rightarrow> error + KeyFrameSet" where
  "CompressKeyFrameSet ml kf =
     (if length (KeyFrameSet.bind_real kf) = length (KeyFrameSet.bind_dual kf)
         \<and> length (KeyFrameSet.frame_id kf) = length (KeyFrameSet.bind_scale kf)
         \<and> length (KeyFrameSet.frame_id kf) = length (KeyFrameSet.bind_real kf)
      then Inr (compress_loop ml kf 0)
      else Inl AssertionFailed)"

text \<open>The samples of a KeyFrameSet, one tuple per index, and its size invariant.\<close>

definition samples :: "KeyFrameSet \<Rightarrow> (int \<times> Quaternion \<times> Quaternion \<times> real) list" where
  "samples kf = zip (KeyFrameSet.frame_id kf) (zip (KeyFrameSet.bind_real kf) (zip (KeyFrameSet.bind_dual kf) (KeyFrameSet.bind_scale kf)))"

definition same_size :: "KeyFrameSet \<Rightarrow> bool" where
  "same_size kf \<longleftrightarrow>
     length (KeyFrameSet.bind_real kf) = length (KeyFrameSet.bind_dual kf)
     \<and> length (KeyFrameSet.frame_id kf) = length (KeyFrameSet.bind_scale kf)
     \<and> length (KeyFrameSet.frame_id kf) = length (KeyFrameSet.bind_real kf)"

subsection \<open>RemoveUnusedMaterials and RemoveUnusedJoints\<close>

text \<open>
  The numbering loop shared by both functions:
  \<^verbatim>\<open>for (i = 0; i < n; ++ i) if (used[i]) { mapping[i] = new_id; ++ new_id; }\<close>
  on a zero-initialised \<^verbatim>\<open>mapping\<close>. The result is the mapping and the final
  \<^verbatim>\<open>new_id\<close>.
\<close>

definition number_used :: "bool list \<Rightarrow> nat list \<times> nat" where
  "number_used used =
     fold (\<lambda>i (mapping, new_id).
             if used ! i then (mapping[i := new_id], Suc new_id) else (mapping, new_id))
       [0..<length used] (replicate (length used) 0, 0)"

text \<open>\<^verbatim>\<open>for (auto& mesh : meshes_) mtl_used[mesh.mtl_id] = true;\<close>\<close>

fun mark_materials :: "Mesh list \<Rightarrow> bool list \<Rightarrow> error + bool list" where
  "mark_materials [] mtl_used = Inr mtl_used"
| "mark_materials (mesh # meshes) mtl_used =
     (if mtl_id mesh < length mtl_used
      then mark_materials meshes (mtl_used[mtl_id mesh := True])
      else Inl OutOfRange)"

text \<open>
  \<^verbatim>\<open>for (i = 0; i < NumMaterials(); ++ i) { BOOST_ASSERT(mtl_mapping[i] <= i);
  GetMaterial(i) = GetMaterial(mtl_mapping[i]); }\<close>, over the indices still to visit.
\<close>

fun copy_materials :: "nat list \<Rightarrow> nat list \<Rightarrow> 'm list \<Rightarrow> error + 'm list" where
  "copy_materials mtl_mapping [] materials = Inr materials"
| "copy_materials mtl_mapping (i # rest) materials =
     (if mtl_mapping ! i \<le> i
      then copy_materials mtl_mapping rest (materials[i := materials ! (mtl_mapping ! i)])
      else Inl AssertionFailed)"

text \<open>
  \<^verbatim>\<open>RemoveUnusedMaterials\<close> on the model's materials and the meshes; the result is the
  new material array (after \<^verbatim>\<open>NumMaterials(new_mtl_id)\<close>) and the meshes with their
  material ids rewritten.
\<close>

definition RemoveUnusedMaterials :: "'m list \<Rightarrow> Mesh list \<Rightarrow> error + ('m list \<times> Mesh list)" where
  "RemoveUnusedMaterials materials meshes =
     (case mark_materials meshes (replicate (length materials) False) of
        Inl e \<Rightarrow> Inl e
      | Inr mtl_used \<Rightarrow>
          let (mtl_mapping, new_mtl_id) = number_used mtl_used in
          (case copy_materials mtl_mapping [0..<length materials] materials of
             Inl e \<Rightarrow> Inl e
           | Inr copied \<Rightarrow>
               Inr (take new_mtl_id copied,
                    map (\<lambda>mesh. mesh\<lparr>mtl_id := mtl_mapping ! mtl_id mesh\<rparr>) meshes)))"

text \<open>
  The first loop nest of \<^verbatim>\<open>RemoveUnusedJoints\<close>:
  \<^verbatim>\<open>joints_used[bind.first] = true\<close> for every binding of every vertex of every LOD of
  every mesh, here over the bindings in that order.
\<close>

definition all_bindings :: "Mesh list \<Rightarrow> (nat \<times> real) list" where
  "all_bindings meshes = concat (concat (map (\<lambda>mesh. map (\<lambda>lod. concat (joint_bindings lod)) (lods mesh)) meshes))"

fun mark_bound :: "(nat \<times> real) list \<Rightarrow> bool list \<Rightarrow> error + bool list" where
  "mark_bound [] joints_used = Inr joints_used"
| "mark_bound (bind # binds) joints_used =
     (if fst bind < length joints_used
      then mark_bound binds (joints_used[fst bind := True])
      else Inl OutOfRange)"

text \<open>
  \<^verbatim>\<open>while ((j->parent != -1) && !joints_used[j->parent])
  { joints_used[j->parent] = true; j = &joints_[j->parent]; }\<close>, from joint \<open>j\<close>.
  A parent other than \<open>-1\<close> that is not an index of \<^verbatim>\<open>joints_\<close> is an out-of-range
  access.
\<close>

function mark_ancestors :: "Joint list \<Rightarrow> bool list \<Rightarrow> nat \<Rightarrow> error + bool list" where
  "mark_ancestors joints joints_used j =
     (let p = parent (joints ! j) in
      if p = - 1 then Inr joints_used
      else if p < 0 \<or> length joints_used \<le> nat p \<or> length joints \<le> nat p then Inl OutOfRange
      else if joints_used ! nat p then Inr joints_used
      else mark_ancestors joints (joints_used[nat p := True]) (nat p))"
  by pat_completeness auto
termination
proof (relation "measure (\<lambda>(joints, joints_used, j). length (filter Not joints_used))")
  show "wf (measure (\<lambda>(joints, joints_used, j). length (filter Not joints_used)))" by simp
next
  fix joints :: "Joint list" and joints_used :: "bool list" and j :: nat and p :: int
  assume "\<not> (p < 0 \<or> length joints_used \<le> nat p \<or> length joints \<le> nat p)"
    and unused: "\<not> joints_used ! nat p"
  then have inside: "nat p < length joints_used" by simp
  have "i < length bs \<Longrightarrow> \<not> bs ! i \<Longrightarrow>
      length (filter Not (bs[i := True])) < length (filter Not bs)" for i and bs :: "bool list"
  proof (induction bs arbitrary: i)
    case Nil
    then show ?case by simp
  next
    case (Cons b bs)
    then show ?case by (cases i) auto
  qed
  from this [OF inside unused]
  show "((joints, joints_used[nat p := True], nat p), (joints, joints_used, j))
      \<in> measure (\<lambda>(joints, joints_used, j). length (filter Not joints_used))"
    by simp
qed

declare mark_ancestors.simps [simp del]

text \<open>
  \<^verbatim>\<open>for (ji = 0; ji < joints_.size(); ++ ji) if (joints_used[ji]) { ... while ... }\<close>,
  over the indices still to visit.
\<close>

fun mark_all_ancestors :: "Joint list \<Rightarrow> nat list \<Rightarrow> bool list \<Rightarrow> error + bool list" where
  "mark_all_ancestors joints [] joints_used = Inr joints_used"
| "mark_all_ancestors joints (ji # rest) joints_used =
     (if joints_used ! ji
      then (case mark_ancestors joints joints_used ji of
              Inl e \<Rightarrow> Inl e
            | Inr marked \<Rightarrow> mark_all_ancestors joints rest marked)
      else mark_all_ancestors joints rest joints_used)"

text \<open>
  The compaction loop: \<^verbatim>\<open>if (joints_used[ji]) { BOOST_ASSERT(joint_mapping[ji] <= ji);
  joints_[joint_mapping[ji]] = joints_[ji]; kfs[joint_mapping[ji]] = kfs[ji]; }\<close>.
  The key frame sets are indexed like the joints; one that is missing is an
  out-of-range access.
\<close>

fun compact_joints ::
  "bool list \<Rightarrow> nat list \<Rightarrow> nat list \<Rightarrow> Joint list \<times> 'k list \<Rightarrow> error + (Joint list \<times> 'k list)" where
  "compact_joints joints_used joint_mapping [] (joints, kfs) = Inr (joints, kfs)"
| "compact_joints joints_used joint_mapping (ji # rest) (joints, kfs) =
     (if joints_used ! ji
      then (if \<not> joint_mapping ! ji \<le> ji then Inl AssertionFailed
            else if length kfs \<le> ji then Inl OutOfRange
            else compact_joints joints_used joint_mapping rest
                   (joints[joint_mapping ! ji := joints ! ji], kfs[joint_mapping ! ji := kfs ! ji]))
      else compact_joints joints_used joint_mapping rest (joints, kfs))"

definition remap_bindings :: "nat list \<Rightarrow> Mesh list \<Rightarrow> Mesh list" where
  "remap_bindings joint_mapping meshes =
     map (\<lambda>mesh. mesh\<lparr>lods :=
       map (\<lambda>lod. lod\<lparr>joint_bindings :=
         map (map (\<lambda>bind. (joint_mapping ! fst bind, snd bind))) (joint_bindings lod)\<rparr>)
         (lods mesh)\<rparr>) meshes"

text \<open>
  \<^verbatim>\<open>RemoveUnusedJoints\<close> on \<^verbatim>\<open>joints_\<close>, the model's key frame sets and the meshes.
\<close>

definition RemoveUnusedJoints ::
  "Joint list \<Rightarrow> 'k list \<Rightarrow> Mesh list \<Rightarrow> error + (Joint list \<times> 'k list \<times> Mesh list)" where
  "RemoveUnusedJoints joints kfs meshes =
     (case mark_bound (all_bindings meshes) (replicate (length joints) False) of
        Inl e \<Rightarrow> Inl e
      | Inr bound \<Rightarrow>
         (case mark_all_ancestors joints [0..<length joints] bound of
            Inl e \<Rightarrow> Inl e
          | Inr joints_used \<Rightarrow>
              let (joint_mapping, new_joint_id) = number_used joints_used in
              (case compact_joints joints_used joint_mapping [0..<length joints] (joints, kfs) of
                 Inl e \<Rightarrow> Inl e
               | Inr (joints', kfs') \<Rightarrow>
                   Inr (take new_joint_id joints', take new_joint_id kfs',
                        remap_bindings joint_mapping meshes))))"

subsection \<open>ResampleJointTransform and BuildActions\<close>

text \<open>
  The importer's animation data: a key is a pair of its \<^verbatim>\<open>mTime\<close> and its \<^verbatim>\<open>mValue\<close>.
\<close>

record aiNodeAnim =
  mNodeName :: string
  mPositionKeys :: "(real \<times> float3) list"
  mRotationKeys :: "(real \<times> Quaternion) list"
  mScalingKeys :: "(real \<times> float3) list"

record aiAnimation =
  mName :: string
  mDuration :: real
  mTicksPerSecond :: real
  mChannels :: "aiNodeAnim list"

text \<open>
  The local \<^verbatim>\<open>struct Animation\<close> of \<^verbatim>\<open>BuildActions\<close>. Its
  \<^verbatim>\<open>std::map<int, KeyFrameSet> resampled_frames\<close> is keyed by joint index.
\<close>

record Animation =
  name :: string
  frame_num :: int
  resampled_frames :: "nat \<rightharpoonup> KeyFrameSet"

definition resample_fps :: int where
  "resample_fps = 25"

definition empty_kfs :: KeyFrameSet where
  "empty_kfs = \<lparr>KeyFrameSet.frame_id = [], KeyFrameSet.bind_real = [],
     KeyFrameSet.bind_dual = [], KeyFrameSet.bind_scale = []\<rparr>"

text \<open>The four \<^verbatim>\<open>push_back\<close> calls that add one sample to a KeyFrameSet.\<close>

definition push_sample :: "KeyFrameSet \<Rightarrow> int \<Rightarrow> Quaternion \<Rightarrow> Quaternion \<Rightarrow> real \<Rightarrow> KeyFrameSet" where
  "push_sample kf f r d s =
     \<lparr>KeyFrameSet.frame_id = KeyFrameSet.frame_id kf @ [f],
      KeyFrameSet.bind_real = KeyFrameSet.bind_real kf @ [r],
      KeyFrameSet.bind_dual = KeyFrameSet.bind_dual kf @ [d],
      KeyFrameSet.bind_scale = KeyFrameSet.bind_scale kf @ [s]\<rparr>"

text \<open>
  One iteration of the frame loop of \<^verbatim>\<open>ResampleJointTransform\<close>, for frame \<open>i\<close>, from
  the cursors \<^verbatim>\<open>(i_pos, i_rot, i_scale)\<close>, in its three branches. Each gives the new
  cursor and the resampled value. The position branch reads the rotation track at the
  position track's lower index and at \<^verbatim>\<open>i_rot\<close>; an index outside the rotation track
  is an out-of-range access.
\<close>

definition resample_scale :: "(real \<times> float3) list \<Rightarrow> real \<Rightarrow> nat \<Rightarrow> error + (nat \<times> float3)" where
  "resample_scale scales time i_scale =
     (if scales \<noteq> []
      then (case GetInterpTime scales time i_scale of
              Inl e \<Rightarrow> Inl e
            | Inr (fraction, prev_i, i_scale') \<Rightarrow>
                Inr (i_scale', lerp3 (snd (scales ! prev_i)) (snd (scales ! i_scale')) fraction))
      else Inr (i_scale, float3 1 1 1))"

definition resample_rotation ::
  "mathlib \<Rightarrow> (real \<times> Quaternion) list \<Rightarrow> real \<Rightarrow> nat \<Rightarrow> error + (nat \<times> Quaternion)" where
  "resample_rotation ml quats time i_rot =
     (if quats \<noteq> []
      then (case GetInterpTime quats time i_rot of
              Inl e \<Rightarrow> Inl e
            | Inr (fraction, prev_i, i_rot') \<Rightarrow>
                Inr (i_rot', slerp ml (snd (quats ! prev_i)) (snd (quats ! i_rot')) fraction))
      else Inr (i_rot, Quaternion 0 0 0 1))"

definition resample_position ::
  "mathlib \<Rightarrow> (real \<times> float3) list \<Rightarrow> (real \<times> Quaternion) list \<Rightarrow> real \<Rightarrow> nat \<Rightarrow> nat
     \<Rightarrow> error + (nat \<times> Quaternion)" where
  "resample_position ml poss quats time i_pos i_rot =
     (if poss \<noteq> []
      then (case GetInterpTime poss time i_pos of
              Inl e \<Rightarrow> Inl e
            | Inr (fraction, prev_i, i_pos') \<Rightarrow>
                if length quats \<le> prev_i \<or> length quats \<le> i_rot then Inl OutOfRange
                else
                  let bind_dual_prev_i =
                        quat_trans_to_udq ml (snd (quats ! prev_i)) (snd (poss ! prev_i));
                      bind_dual_i_pos =
                        quat_trans_to_udq ml (snd (quats ! i_rot)) (snd (poss ! i_pos'));
                      bind_dq_resampled =
                        sclerp ml (snd (quats ! prev_i)) bind_dual_prev_i
                          (snd (quats ! i_rot)) bind_dual_i_pos fraction
                  in Inr (i_pos', snd bind_dq_resampled))
      else Inr (i_pos, Quaternion 0 0 0 0))"

definition resample_frame ::
  "mathlib \<Rightarrow> real \<Rightarrow> (real \<times> float3) list \<Rightarrow> (real \<times> Quaternion) list \<Rightarrow> (real \<times> float3) list
     \<Rightarrow> int \<Rightarrow> nat \<times> nat \<times> nat \<Rightarrow> KeyFrameSet \<Rightarrow> error + ((nat \<times> nat \<times> nat) \<times> KeyFrameSet)" where
  "resample_frame ml fps_scale poss quats scales i cursors rkf =
     (let (i_pos, i_rot, i_scale) = cursors;
          time = real_of_int i * fps_scale
      in
      (case resample_scale scales time i_scale of
         Inl e \<Rightarrow> Inl e
       | Inr (i_scale', scale_resampled) \<Rightarrow>
      (case resample_rotation ml quats time i_rot of
         Inl e \<Rightarrow> Inl e
       | Inr (i_rot', bind_real_resampled) \<Rightarrow>
      (case resample_position ml poss quats time i_pos i_rot' of
         Inl e \<Rightarrow> Inl e
       | Inr (i_pos', bind_dual_resampled) \<Rightarrow>
           (let flip = (SignBit (qw bind_real_resampled) < 0);
                bind_real_final =
                  (if flip then quat_neg bind_real_resampled else bind_real_resampled);
                bind_dual_final =
                  (if flip then quat_neg bind_dual_resampled else bind_dual_resampled)
            in Inr ((i_pos', i_rot', i_scale'),
                    push_sample rkf i bind_real_final bind_dual_final (vx scale_resampled)))))))"

text \<open>The frame loop \<^verbatim>\<open>for (int i = start_frame; i < end_frame; ++ i)\<close>, over the frames left.\<close>

fun resample_frames ::
  "mathlib \<Rightarrow> real \<Rightarrow> (real \<times> float3) list \<Rightarrow> (real \<times> Quaternion) list \<Rightarrow> (real \<times> float3) list
     \<Rightarrow> int list \<Rightarrow> nat \<times> nat \<times> nat \<Rightarrow> KeyFrameSet \<Rightarrow> error + KeyFrameSet" where
  "resample_frames ml fps_scale poss quats scales [] cursors rkf = Inr rkf"
| "resample_frames ml fps_scale poss quats scales (i # rest) cursors rkf =
     (case resample_frame ml fps_scale poss quats scales i cursors rkf of
        Inl e \<Rightarrow> Inl e
      | Inr (cursors', rkf') \<Rightarrow> resample_frames ml fps_scale poss quats scales rest cursors' rkf')"

definition ResampleJointTransform ::
  "mathlib \<Rightarrow> KeyFrameSet \<Rightarrow> int \<Rightarrow> int \<Rightarrow> real \<Rightarrow> (real \<times> float3) list
     \<Rightarrow> (real \<times> Quaternion) list \<Rightarrow> (real \<times> float3) list \<Rightarrow> error + KeyFrameSet" where
  "ResampleJointTransform ml rkf start_frame end_frame fps_scale poss quats scales =
     resample_frames ml fps_scale poss quats scales [start_frame..end_frame - 1] (0, 0, 0) rkf"

text \<open>
  The joint lookup of the channel loop: \<^verbatim>\<open>joint_id\<close> is the index of the first joint
  with the channel's node name, and \<open>-1\<close> when there is none.
\<close>

fun find_joint_from :: "Joint list \<Rightarrow> string \<Rightarrow> nat \<Rightarrow> int" where
  "find_joint_from [] node_name ji = - 1"
| "find_joint_from (j # js) node_name ji =
     (if Joint.name j = node_name then int ji else find_joint_from js node_name (Suc ji))"

definition find_joint :: "Joint list \<Rightarrow> string \<Rightarrow> int" where
  "find_joint joints node_name = find_joint_from joints node_name 0"

text \<open>
  The channel loop. \<^verbatim>\<open>anim.resampled_frames[joint_id]\<close> creates an empty KeyFrameSet
  for a new key; the channel is resampled into it under \<^verbatim>\<open>if (joint_id > 0)\<close>.
\<close>

fun import_channels ::
  "mathlib \<Rightarrow> Joint list \<Rightarrow> int \<Rightarrow> real \<Rightarrow> aiNodeAnim list \<Rightarrow> (nat \<rightharpoonup> KeyFrameSet)
     \<Rightarrow> error + (nat \<rightharpoonup> KeyFrameSet)" where
  "import_channels ml joints frames fps_scale [] resampled = Inr resampled"
| "import_channels ml joints frames fps_scale (cur_joint # rest) resampled =
     (let joint_id = find_joint joints (mNodeName cur_joint) in
      if joint_id > 0
      then (case ResampleJointTransform ml
                   (case resampled (nat joint_id) of None \<Rightarrow> empty_kfs | Some rkf \<Rightarrow> rkf)
                   0 frames fps_scale
                   (mPositionKeys cur_joint) (mRotationKeys cur_joint) (mScalingKeys cur_joint) of
              Inl e \<Rightarrow> Inl e
            | Inr rkf \<Rightarrow>
                import_channels ml joints frames fps_scale rest (resampled(nat joint_id \<mapsto> rkf)))
      else import_channels ml joints frames fps_scale rest resampled)"

text \<open>
  The default frame of a joint without a resampled track: frame 0 with the local
  transform that \<^verbatim>\<open>BuildJoints\<close> left in the \<^verbatim>\<open>inverse_origin\<close> fields.
\<close>

definition default_tf :: "Joint \<Rightarrow> KeyFrameSet" where
  "default_tf j =
     \<lparr>KeyFrameSet.frame_id = [0],
      KeyFrameSet.bind_real = [inverse_origin_real j],
      KeyFrameSet.bind_dual = [inverse_origin_dual j],
      KeyFrameSet.bind_scale = [inverse_origin_scale j]\<rparr>"

definition add_defaults :: "Joint list \<Rightarrow> (nat \<rightharpoonup> KeyFrameSet) \<Rightarrow> (nat \<rightharpoonup> KeyFrameSet)" where
  "add_defaults joints resampled =
     fold (\<lambda>ji frames. if frames ji = None then frames(ji \<mapsto> default_tf (joints ! ji)) else frames)
       [0..<length joints] resampled"

text \<open>
  The body of the first loop of \<^verbatim>\<open>BuildActions\<close> for one clip. The frame count is
  \<^verbatim>\<open>static_cast<int>(ceilf(duration * resample_fps))\<close> with
  \<^verbatim>\<open>duration = mDuration / mTicksPerSecond\<close>; a zero tick rate (an infinite or
  undefined quotient) or a count outside the range of \<^verbatim>\<open>int\<close> has no defined
  conversion and is an error here.
\<close>

definition build_animation :: "mathlib \<Rightarrow> Joint list \<Rightarrow> aiAnimation \<Rightarrow> error + Animation" where
  "build_animation ml joints cur_anim =
     (if mTicksPerSecond cur_anim = 0 then Inl OutOfRange
      else
        let duration = mDuration cur_anim / mTicksPerSecond cur_anim;
            frames0 = \<lceil>duration * real_of_int resample_fps\<rceil>
        in
        if frames0 < - (2 ^ 31) \<or> 2 ^ 31 \<le> frames0 then Inl OutOfRange
        else
          let frames = (if frames0 = 0 then 1 else frames0) in
          case import_channels ml joints frames
                 (mTicksPerSecond cur_anim / real_of_int resample_fps) (mChannels cur_anim)
                 Map.empty of
            Inl e \<Rightarrow> Inl e
          | Inr resampled \<Rightarrow>
              Inr \<lparr>Animation.name = mName cur_anim, frame_num = frames,
                   resampled_frames = add_defaults joints resampled\<rparr>)"




record AnimationAction =
  name :: string
  start_frame :: int
  end_frame :: int



text \<open>
  The invariant of the second loop, used in the proofs: a list of actions is chained
  from \<open>off\<close> to \<open>fin\<close> when the first starts at \<open>off\<close>, each is non-empty and starts
  where the one before ends, and the last ends at \<open>fin\<close>.
\<close>

fun chained :: "int \<Rightarrow> AnimationAction list \<Rightarrow> int \<Rightarrow> bool" where
  "chained off [] fin = (fin = off)"
| "chained off (a # as) fin =
     (start_frame a = off \<and> start_frame a < end_frame a \<and> chained (end_frame a) as fin)"

subsection \<open>MatrixToDQ and BuildJoints\<close>













subsection \<open>BuildMeshData: joint bindings\<close>





subsection \<open>Position quantization\<close>




subsection \<open>Convert and LoadFromAssimp: the error paths\<close>

text \<open>
  The messages written to \<^verbatim>\<open>LogError()\<close> on the paths below:
  \<^verbatim>\<open>"Could NOT find <name>."\<close>, \<^verbatim>\<open>"Could NOT find <name> for LoD <lod>."\<close> and
  \<^verbatim>\<open>"Assimp: Import file <name> error: ..."\<close>.
\<close>

datatype log_entry =
  CouldNotFind string
| CouldNotFindLod string nat
| ImportError string

text \<open>
  What \<^verbatim>\<open>Convert\<close> and \<^verbatim>\<open>LoadFromAssimp\<close> call outside this file, as a parameter: the
  resource locator (an empty string when nothing is found), the path's extension, the
  metadata's LOD count and LOD file names, the importer (\<open>None\<close> for a null scene),
  the two other loaders, and the two stretches of code that run only after every LOD
  is loaded: the rest of \<^verbatim>\<open>LoadFromAssimp\<close>, which sets \<^verbatim>\<open>render_model_\<close>, and the rest
  of \<^verbatim>\<open>Convert\<close>.
\<close>

record ('scene, 'model) boundary =
  Locate :: "string \<Rightarrow> string"
  extension :: "string \<Rightarrow> string"
  NumLods :: nat
  LodFileName :: "nat \<Rightarrow> string"
  import_file :: "string \<Rightarrow> 'scene option"
  build_model :: "'scene list \<Rightarrow> 'model"
  LoadSoftwareModel :: "string \<Rightarrow> 'model option"
  LoadFromMeshML :: "string \<Rightarrow> 'model option"
  assemble :: "'model \<Rightarrow> 'model"

text \<open>
  The LOD loop of \<^verbatim>\<open>LoadFromAssimp\<close>, over the LODs left; \<open>None\<close> is the early
  \<^verbatim>\<open>return\<close>.
\<close>

fun load_lods ::
  "('scene, 'model) boundary \<Rightarrow> string \<Rightarrow> nat list \<Rightarrow> 'scene list \<Rightarrow> log_entry list
     \<Rightarrow> 'scene list option \<times> log_entry list" where
  "load_lods env input_name [] scenes msgs = (Some scenes, msgs)"
| "load_lods env input_name (lod # rest) scenes msgs =
     (let lod_file_name = (if lod = 0 then input_name else LodFileName env lod);
          file_name = (if lod = 0 then input_name else Locate env lod_file_name)
      in if file_name = [] then (None, msgs @ [CouldNotFindLod lod_file_name lod])
         else (case import_file env file_name of
                 None \<Rightarrow> (None, msgs @ [ImportError lod_file_name])
               | Some scene \<Rightarrow> load_lods env input_name rest (scenes @ [scene]) msgs))"

text \<open>
  \<^verbatim>\<open>LoadFromAssimp\<close>: the result is \<^verbatim>\<open>render_model_\<close>, which \<^verbatim>\<open>Convert\<close> has reset to
  null before the call, and the log.
\<close>

definition LoadFromAssimp ::
  "('scene, 'model) boundary \<Rightarrow> string \<Rightarrow> log_entry list \<Rightarrow> 'model option \<times> log_entry list" where
  "LoadFromAssimp env input_name msgs =
     (case load_lods env input_name [0..<NumLods env] [] msgs of
        (None, msgs') \<Rightarrow> (None, msgs')
      | (Some scenes, msgs') \<Rightarrow> (Some (build_model env scenes), msgs'))"

text \<open>\<^verbatim>\<open>Convert\<close>: the returned model pointer (\<open>None\<close> for null) and the log.\<close>

definition Convert ::
  "('scene, 'model) boundary \<Rightarrow> string \<Rightarrow> 'model option \<times> log_entry list" where
  "Convert env input_name =
     (let input_name_str = Locate env input_name in
      if input_name_str = [] then (None, [CouldNotFind input_name])
      else
        let input_ext = extension env input_name_str in
        if input_ext = ''.model_bin'' then (LoadSoftwareModel env input_name_str, [])
        else
          let (render_model, msgs) =
                (if input_ext = ''.meshml'' then (LoadFromMeshML env input_name_str, [])
                 else LoadFromAssimp env input_name_str [])
          in (case render_model of
                None \<Rightarrow> (None, msgs)
              | Some model \<Rightarrow> (Some (assemble env model), msgs)))"

text \<open>
  The failure of a LOD: its source file is not located, or the importer returns no
  scene for it. LOD 0 is the input itself.
\<close>

definition lod_fails :: "('scene, 'model) boundary \<Rightarrow> string \<Rightarrow> nat \<Rightarrow> bool" where
  "lod_fails env input_name lod =
     (if lod = 0
      then Locate env input_name = [] \<or> import_file env (Locate env input_name) = None
      else Locate env (LodFileName env lod) = []
           \<or> import_file env (Locate env (LodFileName env lod)) = None)"

subsection \<open>MathLib at the identity transform\<close>

text \<open>
  Modelled from the spec: the values that the MathLib routines (KFL, not under src/)
  take at the arguments the worked examples reach. Interpolating between two equal
  dual quaternions gives that dual quaternion; the identity dual quaternion is its own
  inverse and a left unit of the dual-quaternion product; a matrix whose rotation
  block is the identity decomposes into unit scale, the identity rotation and its
  fourth row as translation, and a zero translation has a zero dual part; a diagonal
  matrix with entries \<open>1\<close> and \<open>-1\<close> is its own inverse. The general theorems do not
  use this instance.
\<close>

definition mathlib_identity :: mathlib where
  "mathlib_identity =
     \<lparr>sclerp = (\<lambda>real0 dual0 real1 dual1 t. (real0, dual0)),
      slerp = (\<lambda>q0 q1 t. q0),
      dq_inverse = (\<lambda>real dual. (real, dual)),
      mul_dual = (\<lambda>lhs_real lhs_dual rhs_real rhs_dual. rhs_dual),
      mul_real = (\<lambda>lhs rhs. rhs),
      quat_trans_to_udq = (\<lambda>q t. Quaternion 0 0 0 0),
      decompose = (\<lambda>m. (float3 1 1 1, Quaternion 0 0 0 1, float3 (m 3 0) (m 3 1) (m 3 2))),
      mat_inverse = (\<lambda>m. m)\<rparr>"

text \<open>A joint with the identity bind pose, for the worked examples.\<close>

definition identity_joint :: "string \<Rightarrow> int \<Rightarrow> Joint" where
  "identity_joint n p =
     \<lparr>Joint.name = n, parent = p,
      Joint.bind_real = Quaternion 0 0 0 1, Joint.bind_dual = Quaternion 0 0 0 0,
      Joint.bind_scale = 1,
      inverse_origin_real = Quaternion 0 0 0 1, inverse_origin_dual = Quaternion 0 0 0 0,
      inverse_origin_scale = 1\<rparr>"

text \<open>
  Two clips for the worked examples: \<open>walk\<close> lasts 2 ticks at 25 ticks per second and
  has one channel, for the node \<open>arm\<close>; \<open>idle\<close> has zero duration and no channel.
  \<open>sway\<close> is \<open>walk\<close> with a second channel of the same keys for the node \<open>root\<close>.
\<close>

definition still_channel :: "string \<Rightarrow> aiNodeAnim" where
  "still_channel node =
     \<lparr>mNodeName = node,
      mPositionKeys = [(0, float3 0 0 0), (2, float3 0 0 0)],
      mRotationKeys = [(0, Quaternion 0 0 0 1), (2, Quaternion 0 0 0 1)],
      mScalingKeys = [(0, float3 1 1 1)]\<rparr>"




definition sway :: aiAnimation where
  "sway = \<lparr>mName = ''sway'', mDuration = 2, mTicksPerSecond = 25,
            mChannels = [still_channel ''root'', still_channel ''arm'']\<rparr>"



text \<open>
  A conversion with two LODs whose second source file is missing: the input
  \<open>hero.fbx\<close> is located and imports, \<open>hero_lod1.fbx\<close> is not located.
\<close>

definition lost_lod_boundary :: "(string, string) boundary" where
  "lost_lod_boundary =
     \<lparr>Locate = (\<lambda>n. if n = ''hero.fbx'' then ''/res/hero.fbx'' else []),
      extension = (\<lambda>p. ''.fbx''),
      NumLods = 2,
      LodFileName = (\<lambda>lod. ''hero_lod1.fbx''),
      import_file = (\<lambda>f. Some f),
      build_model = (\<lambda>scenes. ''model''),
      LoadSoftwareModel = (\<lambda>f. None),
      LoadFromMeshML = (\<lambda>f. None),
      assemble = (\<lambda>model. model)\<rparr>"

section \<open>Theorems\<close>

subsection \<open>GetInterpTime\<close>

lemma scan_from_ge: "hint \<le> scan_from vec time hint"
proof (induction vec time hint rule: scan_from.induct)
  case (1 vec time i)
  show ?case
  proof (cases "i < length vec \<and> \<not> time \<le> fst (vec ! i)")
    case True
    then have "Suc i \<le> scan_from vec time (Suc i)" using "1.IH" by simp
    then show ?thesis using True by (subst scan_from.simps) simp
  next
    case False
    then show ?thesis by (subst scan_from.simps) auto
  qed
qed

lemma scan_from_le: "hint \<le> length vec \<Longrightarrow> scan_from vec time hint \<le> length vec"
proof (induction vec time hint rule: scan_from.induct)
  case (1 vec time i)
  show ?case
  proof (cases "i < length vec \<and> \<not> time \<le> fst (vec ! i)")
    case True
    then have "scan_from vec time (Suc i) \<le> length vec" using "1.IH" by simp
    then show ?thesis using True by (subst scan_from.simps) simp
  next
    case False
    then show ?thesis using "1.prems" by (subst scan_from.simps) auto
  qed
qed

lemma scan_from_beyond: "\<not> hint < length vec \<Longrightarrow> scan_from vec time hint = hint"
  by (subst scan_from.simps) simp

lemma scan_from_skipped:
  "hint \<le> k \<Longrightarrow> k < scan_from vec time hint \<Longrightarrow> fst (vec ! k) < time"
proof (induction vec time hint rule: scan_from.induct)
  case (1 vec time i)
  show ?case
  proof (cases "i < length vec \<and> \<not> time \<le> fst (vec ! i)")
    case True
    then have eq: "scan_from vec time i = scan_from vec time (Suc i)"
      by (subst scan_from.simps) simp
    show ?thesis
    proof (cases "k = i")
      case True
      then show ?thesis using \<open>i < length vec \<and> \<not> time \<le> fst (vec ! i)\<close> by simp
    next
      case False
      then have "Suc i \<le> k" using "1.prems"(1) by simp
      then show ?thesis using "1.IH" True "1.prems"(2) eq by simp
    qed
  next
    case False
    then have "scan_from vec time i = i" by (subst scan_from.simps) auto
    then show ?thesis using "1.prems" by simp
  qed
qed

lemma scan_from_stop:
  "scan_from vec time hint < length vec \<Longrightarrow> time \<le> fst (vec ! scan_from vec time hint)"
proof (induction vec time hint rule: scan_from.induct)
  case (1 vec time i)
  show ?case
  proof (cases "i < length vec \<and> \<not> time \<le> fst (vec ! i)")
    case True
    then have eq: "scan_from vec time i = scan_from vec time (Suc i)"
      by (subst scan_from.simps) simp
    then show ?thesis using "1.IH" True "1.prems" by simp
  next
    case False
    then have eq: "scan_from vec time i = i" by (subst scan_from.simps) auto
    then show ?thesis using False "1.prems" by auto
  qed
qed

lemma scan_from_sorted_last:
  assumes srt: "sorted_wrt (<) (map fst vec)" and len: "2 \<le> length vec"
    and late: "fst (last vec) \<le> time"
  shows "length vec - 1 \<le> scan_from vec time hint"
proof (rule ccontr)
  assume "\<not> length vec - 1 \<le> scan_from vec time hint"
  then have lt: "scan_from vec time hint < length vec - 1" by simp
  then have "time \<le> fst (vec ! scan_from vec time hint)"
    using scan_from_stop [of vec time hint] by simp
  moreover have "fst (vec ! scan_from vec time hint) < fst (vec ! (length vec - 1))"
    using srt lt len sorted_wrt_nth_less [of "(<)" "map fst vec" "scan_from vec time hint" "length vec - 1"]
    by simp
  moreover have "vec ! (length vec - 1) = last vec"
  proof -
    have "vec \<noteq> []" using len by auto
    then show ?thesis by (simp add: last_conv_nth)
  qed
  ultimately show False using late by simp
qed

text \<open>
  C8, amended. On a non-empty track \<^verbatim>\<open>GetInterpTime\<close> returns. With one sample it
  returns fraction 0 and both indices 0. With two or more samples the scan starts at
  the hint (no entry before the hint is examined: the scan index \<open>i\<close> is at least the
  hint, every entry from the hint up to \<open>i\<close> is earlier than the query time, and entry
  \<open>i\<close>, if any, is not), the bracket is chosen from \<open>i\<close> as the code does, and when
  the sample times are strictly increasing and the query time equals or exceeds the
  last sample's time the bracket is the last two entries. The returned fraction is
  \<open>clamp ((t - t_lower) / (t_upper - t_lower)) 0 1\<close>, and 0 when the bracket has zero
  time length.
\<close>

theorem GetInterpTime_bracket:
  assumes nonempty: "vec \<noteq> []"
  shows "\<exists>fraction lower upper.
    GetInterpTime vec time hint = Inr (fraction, lower, upper) \<and>
    (length vec = 1 \<longrightarrow> fraction = 0 \<and> lower = 0 \<and> upper = 0) \<and>
    (2 \<le> length vec \<longrightarrow>
      (\<exists>i. hint \<le> i \<and> (hint \<le> length vec \<longrightarrow> i \<le> length vec) \<and>
           (\<forall>k. hint \<le> k \<and> k < i \<longrightarrow> fst (vec ! k) < time) \<and>
           (i < length vec \<longrightarrow> time \<le> fst (vec ! i)) \<and>
           (lower, upper) =
             (if i = 0 then (0, 1)
              else if length vec - 1 \<le> i then (length vec - 2, length vec - 1)
              else (i - 1, i))) \<and>
      upper < length vec \<and> lower < upper \<and>
      (sorted_wrt (<) (map fst vec) \<and> fst (last vec) \<le> time \<longrightarrow>
         lower = length vec - 2 \<and> upper = length vec - 1) \<and>
      (fst (vec ! upper) = fst (vec ! lower) \<longrightarrow> fraction = 0) \<and>
      (fst (vec ! upper) \<noteq> fst (vec ! lower) \<longrightarrow>
         fraction =
           clamp ((time - fst (vec ! lower)) / (fst (vec ! upper) - fst (vec ! lower))) 0 1))"
proof (cases "length vec = 1")
  case True
  then show ?thesis using nonempty by (simp add: GetInterpTime_def)
next
  case False
  then have len: "2 \<le> length vec"
    using nonempty by (cases "length vec") auto
  define i where "i = scan_from vec time hint"
  define lower where
    "lower = (if i = 0 then 0 else if length vec - 1 \<le> i then length vec - 2 else i - 1)"
  define upper where
    "upper = (if i = 0 then 1 else if length vec - 1 \<le> i then length vec - 1 else i)"
  define fraction where
    "fraction = clamp (if fst (vec ! upper) - fst (vec ! lower) = 0 then 0
       else (time - fst (vec ! lower)) / (fst (vec ! upper) - fst (vec ! lower))) 0 1"
  have res: "GetInterpTime vec time hint = Inr (fraction, lower, upper)"
    using nonempty False
    by (simp add: GetInterpTime_def Let_def i_def lower_def upper_def fraction_def)
  have scan: "hint \<le> i" "hint \<le> length vec \<longrightarrow> i \<le> length vec"
    "\<forall>k. hint \<le> k \<and> k < i \<longrightarrow> fst (vec ! k) < time"
    "i < length vec \<longrightarrow> time \<le> fst (vec ! i)"
    unfolding i_def
    using scan_from_ge scan_from_le scan_from_skipped scan_from_stop by blast+
  have pair: "(lower, upper) =
      (if i = 0 then (0, 1)
       else if length vec - 1 \<le> i then (length vec - 2, length vec - 1)
       else (i - 1, i))"
    by (simp add: lower_def upper_def)
  have bounds: "upper < length vec" "lower < upper"
    using len by (auto simp: lower_def upper_def)
  have late: "sorted_wrt (<) (map fst vec) \<and> fst (last vec) \<le> time \<longrightarrow>
      lower = length vec - 2 \<and> upper = length vec - 1"
  proof
    assume a: "sorted_wrt (<) (map fst vec) \<and> fst (last vec) \<le> time"
    then have "length vec - 1 \<le> i"
      unfolding i_def using scan_from_sorted_last len by blast
    moreover from this have "i \<noteq> 0" using len by simp
    ultimately show "lower = length vec - 2 \<and> upper = length vec - 1"
      by (simp add: lower_def upper_def)
  qed
  have zero: "fst (vec ! upper) = fst (vec ! lower) \<longrightarrow> fraction = 0"
    by (simp add: fraction_def clamp_def)
  have nonzero: "fst (vec ! upper) \<noteq> fst (vec ! lower) \<longrightarrow>
      fraction = clamp ((time - fst (vec ! lower)) / (fst (vec ! upper) - fst (vec ! lower))) 0 1"
    by (simp add: fraction_def)
  show ?thesis
    using res False scan pair bounds late zero nonzero by blast
qed

theorem GetInterpTime_bracket_witness:
  "GetInterpTime [(0, ''a''), (1, ''b''), (2, ''c'')] (5 / 2) 1 = Inr (1, 1, 2) \<and>
   GetInterpTime [(0, ''a''), (1, ''b''), (2, ''c'')] (1 / 2) 0 = Inr (1 / 2, 0, 1) \<and>
   GetInterpTime [(7, ''a'')] 3 0 = Inr (0, 0, 0)"
proof -
  have ne: "[(0::real, ''a''), (1, ''b''), (2, ''c'')] \<noteq> []" by simp
  have s0: "scan_from [(0::real, ''a''), (1, ''b''), (2, ''c'')] (1 / 2) 0 = 1"
    by (simp add: scan_from.simps)
  have s1: "scan_from [(0::real, ''a''), (1, ''b''), (2, ''c'')] (5 / 2) 1 = 3"
    by (simp add: scan_from.simps)
  show ?thesis
    using GetInterpTime_bracket [OF ne, of "5 / 2" 1] s0 s1
    by (simp add: GetInterpTime_def clamp_def)
qed

text \<open>
  C8 as stated fails on a track with a repeated sample time. With the times 0, 5, 5,
  the query time 5 (which equals the last sample's time) and the hint 0, the scan
  stops at index 1, the first entry that is not earlier than the query, and the
  bracket is the first two entries, not the last two.
\<close>

theorem GetInterpTime_repeated_time_counterexample:
  "fst (last [(0 :: real, ''a''), (5, ''b''), (5, ''c'')]) \<le> 5 \<and>
   GetInterpTime [(0, ''a''), (5, ''b''), (5, ''c'')] 5 0 = Inr (1, 0, 1) \<and>
   (0 :: nat, 1 :: nat) \<noteq>
     (length [(0 :: real, ''a''), (5, ''b''), (5, ''c'')] - 2,
      length [(0 :: real, ''a''), (5, ''b''), (5, ''c'')] - 1)"
proof -
  have s: "scan_from [(0 :: real, ''a''), (5, ''b''), (5, ''c'')] 5 0 = 1"
    by (simp add: scan_from.simps)
  show ?thesis by (simp add: GetInterpTime_def s clamp_def)
qed

subsection \<open>CompressKeyFrameSet\<close>

lemma loop_bound_le: "loop_bound n \<le> int n - 2"
proof -
  define k where "k = int n - 2"
  have e1: "(word_of_nat n :: 64 word) - 2 = word_of_int k"
    by (simp add: k_def)
  have e2: "(ucast (word_of_int k :: 64 word) :: 32 word) = word_of_int k"
    by (rule ucast_down_wi) (simp add: is_down)
  have e3: "sint (word_of_int k :: 32 word) = signed_take_bit 31 k"
    by (simp add: sint_sbintrunc')
  have "loop_bound n = signed_take_bit 31 k"
    unfolding loop_bound_def e1 e2 by (rule e3)
  moreover have "signed_take_bit 31 k \<le> k"
    by (simp add: signed_take_bit_int_less_eq_self_iff k_def)
  ultimately show ?thesis by (simp add: k_def)
qed

lemma compress_loop_stop:
  "\<not> int base < loop_bound (length (KeyFrameSet.frame_id kf)) \<Longrightarrow> compress_loop ml kf base = kf"
  by (subst compress_loop.simps) simp

lemma compress_loop_short:
  assumes "length (KeyFrameSet.frame_id kf) < 3"
  shows "compress_loop ml kf base = kf"
proof -
  have "loop_bound (length (KeyFrameSet.frame_id kf)) \<le> 0"
    using loop_bound_le [of "length (KeyFrameSet.frame_id kf)"] assms by simp
  then show ?thesis by (simp add: compress_loop_stop)
qed

lemma zip_erase_at:
  "length xs = length ys \<Longrightarrow> zip (erase_at xs i) (erase_at ys i) = erase_at (zip xs ys) i"
  by (simp add: erase_at_def take_zip drop_zip)

lemma length_erase_at: "i < length xs \<Longrightarrow> length (erase_at xs i) = length xs - 1"
  by (simp add: erase_at_def)

lemma samples_erase_sample:
  "same_size kf \<Longrightarrow> samples (erase_sample kf i) = erase_at (samples kf) i"
  by (simp add: same_size_def samples_def erase_sample_def zip_erase_at)

lemma same_size_erase_sample: "same_size kf \<Longrightarrow> same_size (erase_sample kf i)"
  by (auto simp: same_size_def erase_sample_def erase_at_def)

lemma length_samples: "same_size kf \<Longrightarrow> length (samples kf) = length (KeyFrameSet.frame_id kf)"
  by (simp add: same_size_def samples_def)

lemma subseq_erase_at: "subseq (erase_at xs i) xs"
proof -
  have "subseq (take i xs @ drop (Suc i) xs) (take i xs @ drop i xs)"
    by (intro list_emb_append_mono subseq_order.order_refl subseq_drop_many)
       (metis Suc_eq_plus1 add.commute drop_drop subseq_order.order_refl suffix_drop suffix_imp_subseq)
  then show ?thesis by (simp add: erase_at_def)
qed

lemma hd_erase_at: "0 < i \<Longrightarrow> i < length xs \<Longrightarrow> hd (erase_at xs i) = hd xs"
  by (cases xs; cases i) (simp_all add: erase_at_def)

lemma last_erase_at: "Suc i < length xs \<Longrightarrow> last (erase_at xs i) = last xs"
  by (simp add: erase_at_def)

lemma compress_loop_keeps_ends:
  "same_size kf \<Longrightarrow>
     same_size (compress_loop ml kf base)
     \<and> subseq (samples (compress_loop ml kf base)) (samples kf)
     \<and> hd (samples (compress_loop ml kf base)) = hd (samples kf)
     \<and> last (samples (compress_loop ml kf base)) = last (samples kf)
     \<and> min 2 (length (samples kf)) \<le> length (samples (compress_loop ml kf base))"
proof (induction ml kf base rule: compress_loop.induct)
  case (1 ml kf base)
  show ?case
  proof (cases "int base < loop_bound (length (KeyFrameSet.frame_id kf))")
    case False
    then show ?thesis using "1.prems" by (simp add: compress_loop_stop)
  next
    case run: True
    then have lt: "base + 2 < length (samples kf)"
      using loop_bound_le [of "length (KeyFrameSet.frame_id kf)"] "1.prems" by (simp add: length_samples)
    show ?thesis
    proof (cases "within_threshold ml kf base")
      case True
      let ?kf' = "erase_sample kf (base + 1)"
      have eq: "compress_loop ml kf base = compress_loop ml ?kf' base"
        using run True by (subst compress_loop.simps) simp
      have ss: "same_size ?kf'" using "1.prems" by (rule same_size_erase_sample)
      have sm: "samples ?kf' = erase_at (samples kf) (base + 1)"
        using "1.prems" by (rule samples_erase_sample)
      have ih: "same_size (compress_loop ml ?kf' base)
         \<and> subseq (samples (compress_loop ml ?kf' base)) (samples ?kf')
         \<and> hd (samples (compress_loop ml ?kf' base)) = hd (samples ?kf')
         \<and> last (samples (compress_loop ml ?kf' base)) = last (samples ?kf')
         \<and> min 2 (length (samples ?kf')) \<le> length (samples (compress_loop ml ?kf' base))"
        using "1.IH"(1) run True ss by simp
      have "subseq (samples ?kf') (samples kf)" unfolding sm by (rule subseq_erase_at)
      moreover have "hd (samples ?kf') = hd (samples kf)"
        unfolding sm using lt by (intro hd_erase_at) simp_all
      moreover have "last (samples ?kf') = last (samples kf)"
        unfolding sm using lt by (intro last_erase_at) simp
      moreover have "length (samples ?kf') = length (samples kf) - 1"
        unfolding sm using lt by (intro length_erase_at) simp
      ultimately show ?thesis
        unfolding eq using ih lt subseq_order.order_trans by fastforce
    next
      case False
      have eq: "compress_loop ml kf base = compress_loop ml kf (base + 1)"
        using run False by (subst compress_loop.simps) simp
      show ?thesis unfolding eq using "1.IH"(2) run False "1.prems" by simp
    qed
  qed
qed

text \<open>
  C1. For every KeyFrameSet whose four vectors have the same size (the function's
  assertion), \<^verbatim>\<open>CompressKeyFrameSet\<close> returns a KeyFrameSet that is left completely
  unchanged when it has fewer than 3 samples, and otherwise is obtained by removing
  samples only: the first sample and the last sample are those of the input, and at
  least two samples remain when the input had two.
\<close>

theorem CompressKeyFrameSet_keeps_ends:
  assumes "same_size kf"
  shows "\<exists>kf'. CompressKeyFrameSet ml kf = Inr kf' \<and> same_size kf' \<and>
     (length (samples kf) < 3 \<longrightarrow> kf' = kf) \<and>
     subseq (samples kf') (samples kf) \<and>
     hd (samples kf') = hd (samples kf) \<and>
     last (samples kf') = last (samples kf) \<and>
     min 2 (length (samples kf)) \<le> length (samples kf')"
proof -
  have res: "CompressKeyFrameSet ml kf = Inr (compress_loop ml kf 0)"
    using assms by (simp add: CompressKeyFrameSet_def same_size_def)
  have short: "length (samples kf) < 3 \<longrightarrow> compress_loop ml kf 0 = kf"
    using assms by (simp add: length_samples compress_loop_short)
  show ?thesis
    using res short compress_loop_keeps_ends [OF assms, of ml 0] by simp
qed

theorem CompressKeyFrameSet_keeps_ends_witness:
  "CompressKeyFrameSet mathlib_identity
     \<lparr>KeyFrameSet.frame_id = [0, 1, 2, 3],
      KeyFrameSet.bind_real = [Quaternion 0 0 0 1, Quaternion 0 0 0 1, Quaternion 0 0 0 1, Quaternion 0 0 0 1],
      KeyFrameSet.bind_dual = [Quaternion 0 0 0 0, Quaternion 0 0 0 0, Quaternion 0 0 0 0, Quaternion 0 0 0 0],
      KeyFrameSet.bind_scale = [1, 1, 1, 1]\<rparr>
   = Inr \<lparr>KeyFrameSet.frame_id = [0, 3],
      KeyFrameSet.bind_real = [Quaternion 0 0 0 1, Quaternion 0 0 0 1],
      KeyFrameSet.bind_dual = [Quaternion 0 0 0 0, Quaternion 0 0 0 0],
      KeyFrameSet.bind_scale = [1, 1]\<rparr>
   \<and> CompressKeyFrameSet mathlib_identity
     \<lparr>KeyFrameSet.frame_id = [0], KeyFrameSet.bind_real = [Quaternion 0 0 0 1],
      KeyFrameSet.bind_dual = [Quaternion 0 0 0 0], KeyFrameSet.bind_scale = [1]\<rparr>
   = Inr \<lparr>KeyFrameSet.frame_id = [0], KeyFrameSet.bind_real = [Quaternion 0 0 0 1],
      KeyFrameSet.bind_dual = [Quaternion 0 0 0 0], KeyFrameSet.bind_scale = [1]\<rparr>"
proof -
  let ?kf1 = "\<lparr>KeyFrameSet.frame_id = [0], KeyFrameSet.bind_real = [Quaternion 0 0 0 1],
      KeyFrameSet.bind_dual = [Quaternion 0 0 0 0], KeyFrameSet.bind_scale = [1]\<rparr>"
  have ss: "same_size ?kf1" by (simp add: same_size_def)
  have short: "length (samples ?kf1) < 3" by (simp add: samples_def)
  have one: "CompressKeyFrameSet mathlib_identity ?kf1 = Inr ?kf1"
    using CompressKeyFrameSet_keeps_ends [OF ss, of mathlib_identity] short by auto
  let ?q1 = "Quaternion 0 0 0 1" and ?q0 = "Quaternion 0 0 0 0"
  let ?kf4 = "\<lparr>KeyFrameSet.frame_id = [0, 1, 2, 3], KeyFrameSet.bind_real = [?q1, ?q1, ?q1, ?q1],
      KeyFrameSet.bind_dual = [?q0, ?q0, ?q0, ?q0], KeyFrameSet.bind_scale = [1, 1, 1, 1]\<rparr>"
  let ?kf3 = "\<lparr>KeyFrameSet.frame_id = [0, 2, 3], KeyFrameSet.bind_real = [?q1, ?q1, ?q1],
      KeyFrameSet.bind_dual = [?q0, ?q0, ?q0], KeyFrameSet.bind_scale = [1, 1, 1]\<rparr>"
  let ?kf2 = "\<lparr>KeyFrameSet.frame_id = [0, 3], KeyFrameSet.bind_real = [?q1, ?q1],
      KeyFrameSet.bind_dual = [?q0, ?q0], KeyFrameSet.bind_scale = [1, 1]\<rparr>"
  have b4: "loop_bound (length [0::int, 1, 2, 3]) = 2"
    and b3: "loop_bound (length [0::int, 2, 3]) = 1"
    by (simp_all add: loop_bound_def)
  have w4: "within_threshold mathlib_identity ?kf4 0"
    by (simp add: within_threshold_def mathlib_identity_def quat_dot_def quat_scale_def
        lerp_def THRESHOLD_def)
  have w3: "within_threshold mathlib_identity ?kf3 0"
    by (simp add: within_threshold_def mathlib_identity_def quat_dot_def quat_scale_def
        lerp_def THRESHOLD_def)
  have e4: "erase_sample ?kf4 (0 + 1) = ?kf3" and e3: "erase_sample ?kf3 (0 + 1) = ?kf2"
    by (simp_all add: erase_sample_def erase_at_def)
  have s2: "compress_loop mathlib_identity ?kf2 0 = ?kf2"
    by (rule compress_loop_short) simp
  have s3: "compress_loop mathlib_identity ?kf3 0 = ?kf2"
    by (subst compress_loop.simps) (simp only: KeyFrameSet.simps b3 w3 e3 s2, simp)
  have s4: "compress_loop mathlib_identity ?kf4 0 = ?kf2"
    by (subst compress_loop.simps) (simp only: KeyFrameSet.simps b4 w4 e4 s3, simp)
  have four: "CompressKeyFrameSet mathlib_identity ?kf4 = Inr ?kf2"
    by (simp add: CompressKeyFrameSet_def s4)
  show ?thesis using one four by simp
qed

subsection \<open>RemoveUnusedMaterials and RemoveUnusedJoints\<close>

text \<open>
  C5. The model has the materials \<open>A\<close>, \<open>B\<close>, \<open>C\<close> and one mesh, whose material is \<open>B\<close>
  (id 1). After \<^verbatim>\<open>RemoveUnusedMaterials\<close> one material is left and the mesh's id is
  remapped to 0, but the material stored there is \<open>A\<close>: the copy loop assigns
  \<^verbatim>\<open>GetMaterial(i) = GetMaterial(mtl_mapping[i])\<close>, which overwrites slot \<open>i\<close> from
  slot \<open>mtl_mapping[i]\<close> instead of moving material \<open>i\<close> down to its new slot.
\<close>

theorem RemoveUnusedMaterials_overwrites:
  "RemoveUnusedMaterials [''A'', ''B'', ''C''] [\<lparr>mtl_id = 1, lods = []\<rparr>]
     = Inr ([''A''], [\<lparr>mtl_id = 0, lods = []\<rparr>])"
  by (simp add: RemoveUnusedMaterials_def number_used_def upt_rec)

text \<open>
  C6. Five joints in hierarchy order: \<open>root\<close>, its children \<open>a\<close>, \<open>a2\<close>, \<open>b\<close>, and \<open>c\<close>,
  the child of \<open>b\<close> (index 3). The only binding refers to \<open>c\<close>. \<^verbatim>\<open>RemoveUnusedJoints\<close>
  keeps \<open>root\<close>, \<open>b\<close> and \<open>c\<close> (every ancestor of \<open>c\<close>), renumbers them 0, 1, 2 and
  rewrites the binding to 2, but the kept joints are copied with their parent fields
  as they were: \<open>c\<close> still has parent 3, which is no index of the three joints left.
\<close>

theorem RemoveUnusedJoints_stale_parent:
  "RemoveUnusedJoints
     [identity_joint ''root'' (- 1), identity_joint ''a'' 0, identity_joint ''a2'' 0,
      identity_joint ''b'' 0, identity_joint ''c'' 3]
     [''k_root'', ''k_a'', ''k_a2'', ''k_b'', ''k_c'']
     [\<lparr>mtl_id = 0, lods = [\<lparr>joint_bindings = [[(4, 1)]]\<rparr>]\<rparr>]
   = Inr ([identity_joint ''root'' (- 1), identity_joint ''b'' 0, identity_joint ''c'' 3],
          [''k_root'', ''k_b'', ''k_c''],
          [\<lparr>mtl_id = 0, lods = [\<lparr>joint_bindings = [[(2, 1)]]\<rparr>]\<rparr>])"
  by code_simp

subsection \<open>BuildActions\<close>



lemma chained_append:
  "chained off xs mid \<Longrightarrow> chained mid ys fin \<Longrightarrow> chained off (xs @ ys) fin"
  by (induction xs arbitrary: off) auto








text \<open>
  C4. The joints are \<open>root\<close> (index 0) and \<open>arm\<close> (index 1); the clip \<open>sway\<close> has 2
  frames and a channel for each of the two nodes, with the same keys. The channel of
  \<open>arm\<close> is resampled to the frames 0 and 1. The channel of \<open>root\<close> is dropped by
  \<^verbatim>\<open>if (joint_id > 0)\<close> although \<open>root\<close> is a joint, and \<open>root\<close> receives the single
  default frame instead of a resampled track.
\<close>

theorem build_animation_skips_joint_0:
  "map_sum id (\<lambda>anim. (frame_num anim, resampled_frames anim 0, resampled_frames anim 1))
     (build_animation mathlib_identity
        [identity_joint ''root'' (- 1), identity_joint ''arm'' 0] sway)
   = Inr (2,
       Some \<lparr>KeyFrameSet.frame_id = [0],
             KeyFrameSet.bind_real = [Quaternion 0 0 0 1],
             KeyFrameSet.bind_dual = [Quaternion 0 0 0 0],
             KeyFrameSet.bind_scale = [1]\<rparr>,
       Some \<lparr>KeyFrameSet.frame_id = [0, 1],
             KeyFrameSet.bind_real = [Quaternion 0 0 0 1, Quaternion 0 0 0 1],
             KeyFrameSet.bind_dual = [Quaternion 0 0 0 0, Quaternion 0 0 0 0],
             KeyFrameSet.bind_scale = [1, 1]\<rparr>)"
  by code_simp

subsection \<open>MatrixToDQ and BuildJoints\<close>















subsection \<open>BuildMeshData: joint bindings\<close>







subsection \<open>Position quantization\<close>






subsection \<open>Convert and LoadFromAssimp: the error paths\<close>

lemma load_lods_fails:
  assumes "\<exists>lod \<in> set todo. lod_fails env input_name lod" and "input_name_str = Locate env input_name"
    and "input_name_str \<noteq> []"
  shows "fst (load_lods env input_name_str todo scenes msgs) = None
     \<and> snd (load_lods env input_name_str todo scenes msgs) \<noteq> []"
  using assms
proof (induction todo arbitrary: scenes)
  case Nil
  then show ?case by simp
next
  case (Cons lod rest)
  show ?case
  proof (cases "lod_fails env input_name lod")
    case True
    then show ?thesis using Cons.prems(2,3)
      by (auto simp: lod_fails_def Let_def split: if_splits option.splits)
  next
    case False
    then have "\<exists>l \<in> set rest. lod_fails env input_name l" using Cons.prems(1) by auto
    from Cons.IH [OF this Cons.prems(2,3)] show ?thesis
      by (auto simp: Let_def split: option.splits)
  qed
qed

text \<open>
  C9. On the importer path (the input is neither a \<^verbatim>\<open>.model_bin\<close> nor a \<^verbatim>\<open>.meshml\<close>
  file), if the source file of any LOD cannot be located or the importer returns no
  scene for any LOD, \<^verbatim>\<open>Convert\<close> logs an error and returns a null model pointer:
  neither the rest of \<^verbatim>\<open>LoadFromAssimp\<close> nor the rest of \<^verbatim>\<open>Convert\<close> contributes a
  model.
\<close>

theorem Convert_aborts:
  assumes fails: "\<exists>lod < NumLods env. lod_fails env input_name lod"
    and importer: "extension env (Locate env input_name) \<noteq> ''.model_bin''"
      "extension env (Locate env input_name) \<noteq> ''.meshml''"
  shows "fst (Convert env input_name) = None \<and> snd (Convert env input_name) \<noteq> []"
proof (cases "Locate env input_name = []")
  case True
  then show ?thesis by (simp add: Convert_def)
next
  case False
  have "\<exists>lod \<in> set [0..<NumLods env]. lod_fails env input_name lod"
    using fails by auto
  from load_lods_fails [OF this refl False, of "[]" "[]"]
  have "fst (LoadFromAssimp env (Locate env input_name) []) = None
      \<and> snd (LoadFromAssimp env (Locate env input_name) []) \<noteq> []"
    by (auto simp: LoadFromAssimp_def split: prod.splits option.splits)
  then show ?thesis
    using False importer
    by (auto simp: Convert_def Let_def split: prod.splits option.splits)
qed

theorem Convert_aborts_witness:
  "Convert lost_lod_boundary ''hero.fbx'' = (None, [CouldNotFindLod ''hero_lod1.fbx'' 1])"
proof -
  have fails: "\<exists>lod < NumLods lost_lod_boundary. lod_fails lost_lod_boundary ''hero.fbx'' lod"
    by (intro exI [of _ 1]) (simp add: lost_lod_boundary_def lod_fails_def)
  have ext: "extension lost_lod_boundary (Locate lost_lod_boundary ''hero.fbx'') \<noteq> ''.model_bin''"
    "extension lost_lod_boundary (Locate lost_lod_boundary ''hero.fbx'') \<noteq> ''.meshml''"
    by (simp_all add: lost_lod_boundary_def)
  have run: "Convert lost_lod_boundary ''hero.fbx'' = (None, [CouldNotFindLod ''hero_lod1.fbx'' 1])"
    by code_simp
  show ?thesis using Convert_aborts [OF fails ext] run by simp
qed

end
